theory Spec2Isabelle
  imports Main "HOL-Library.Char_ord" "HOL-Library.List_Lexorder" "HOL-Library.Multiset"
    "HOL-Library.Word"
begin

unbundle bit_operations_syntax

section \<open>Buffer (buffer.go)\<close>

text \<open>
  A Go byte is a \<^typ>\<open>char\<close> (256 values), a byte slice and a Go string are both
  a \<^typ>\<open>string\<close>. \<open>Buffer\<close> is the struct of buffer.go; its methods take the
  buffer and return the updated one.
\<close>

record Buffer =
  Bytes :: string

definition Write :: "Buffer \<Rightarrow> string \<Rightarrow> Buffer" where
  "Write b v = b\<lparr>Bytes := Bytes b @ v\<rparr>"

definition WriteByte :: "Buffer \<Rightarrow> char \<Rightarrow> Buffer" where
  "WriteByte b v = b\<lparr>Bytes := Bytes b @ [v]\<rparr>"

definition Reset :: "Buffer \<Rightarrow> Buffer" where
  "Reset b = b\<lparr>Bytes := take 0 (Bytes b)\<rparr>"

section \<open>Shapes and values\<close>

text \<open>
  \<open>Kind\<close> is \<open>reflect.Kind\<close>. A \<open>go_type\<close> is what \<open>reflect.TypeOf\<close> returns:
  \<open>TLeaf\<close> covers the types with no structure the encoders look into (the predeclared
  scalars, and channel, function, interface and raw-pointer types); \<open>TTime\<close> is
  \<open>time.Time\<close> (the encoders compare types with \<open>timeType\<close>); \<open>TNamed vm pm t\<close> is a
  defined type over \<open>t\<close> whose methods with a value receiver are named in \<open>vm\<close> and
  those with a pointer receiver in \<open>pm\<close>. A struct field is a \<open>reflect.StructField\<close>:
  it carries its Go name, its \<open>PkgPath\<close> (empty for an exported field, and the path of
  the declaring package for an unexported one), the value of its \<open>json\<close> tag
  (\<open>Tag.Get("json")\<close>, empty when the field has no such tag) and its type. The byte
  offset of a field is represented by the field's index.
\<close>

datatype Kind =
    KInvalid | KBool
  | KInt | KInt8 | KInt16 | KInt32 | KInt64
  | KUint | KUint8 | KUint16 | KUint32 | KUint64 | KUintptr
  | KFloat32 | KFloat64 | KComplex64 | KComplex128
  | KArray | KChan | KFunc | KInterface | KMap | KPtr | KSlice | KString | KStruct
  | KUnsafePointer

datatype leaf =
    LBool
  | LInt | LInt8 | LInt16 | LInt32 | LInt64
  | LUint | LUint8 | LUint16 | LUint32 | LUint64 | LUintptr
  | LFloat32 | LFloat64 | LComplex64 | LComplex128
  | LChan | LFunc | LInterface | LString | LUnsafePointer

datatype go_type =
    TLeaf leaf
  | TArray nat go_type
  | TSlice go_type
  | TStruct "field list"
  | TMap go_type go_type
  | TPtr go_type
  | TTime
  | TNamed "string list" "string list" go_type
and field = Field (Name: string) (PkgPath: string) (Tag: string) (Type: go_type)

text \<open>
  A \<open>go_value\<close> is the content of the memory an encoder is pointed at. All integer
  kinds hold an \<^typ>\<open>int\<close>; a float is held as the text \<open>strconv.AppendFloat\<close> renders
  for it and a \<open>time.Time\<close> as the text \<open>ptrTimeToBuf\<close> renders for it (both are
  outside this repository's sources); a string and a \<open>[]byte\<close> are a \<open>VStr\<close>; a
  map is \<open>None\<close> when nil and otherwise lists its entries in the order the runtime's
  iterator visits them; a pointer is \<open>None\<close> when nil. A value of a defined type carries
  what its \<open>String()\<close>, \<open>JSONEncode\<close> and \<open>MarshalText\<close> methods produce.
\<close>

record methods =
  mString :: string
  mJSONEncode :: string
  mMarshalText :: string

datatype go_value =
    VBool bool
  | VInt int
  | VFloat string
  | VStr string
  | VSeq "go_value list"
  | VStruct "go_value list"
  | VMap "(go_value \<times> go_value) list option"
  | VPtr "go_value option"
  | VTime string
  | VNamed methods go_value
  | VOpaque

fun unwrap :: "go_value \<Rightarrow> go_value" where
  "unwrap (VNamed m v) = unwrap v"
| "unwrap v = v"

text \<open>
  The readers below are the unsafe loads of the Go code (\<open>*(*bool)(v)\<close> and so on)
  on a value of the shape the encoder was compiled for. A load through a header of another
  shape, which Go performs by reinterpreting memory, yields the zero value here, with one
  exception: the load of a slice header. The struct encoder compiles, for a field of type
  \<open>*[]T\<close>, an instruction that loads a slice header at the field's own address, so that
  the pointer word and the two words after it are taken for \<open>Data\<close>, \<open>Len\<close> and
  \<open>Cap\<close>. What such a load yields is not determined by the value: \<open>elems\<close> is
  \<open>None\<close> there.
\<close>

definition asBool :: "go_value \<Rightarrow> bool" where
  "asBool v = (case unwrap v of VBool b \<Rightarrow> b | _ \<Rightarrow> False)"

definition asInt :: "go_value \<Rightarrow> int" where
  "asInt v = (case unwrap v of VInt i \<Rightarrow> i | _ \<Rightarrow> 0)"

definition asFloatText :: "go_value \<Rightarrow> string" where
  "asFloatText v = (case unwrap v of VFloat s \<Rightarrow> s | _ \<Rightarrow> ''0'')"

definition asBytes :: "go_value \<Rightarrow> string" where
  "asBytes v = (case unwrap v of VStr s \<Rightarrow> s | _ \<Rightarrow> [])"

definition asTimeText :: "go_value \<Rightarrow> string" where
  "asTimeText v = (case unwrap v of VTime s \<Rightarrow> s | _ \<Rightarrow> [])"

definition elems :: "go_value \<Rightarrow> go_value list option" where
  "elems v = (case unwrap v of VSeq xs \<Rightarrow> Some xs
                | VStr s \<Rightarrow> Some (map (\<lambda>c. VInt (of_char c)) s)
                | _ \<Rightarrow> None)"

definition fieldAt :: "go_value \<Rightarrow> nat \<Rightarrow> go_value" where
  "fieldAt v i = (case unwrap v of
       VStruct xs \<Rightarrow> (if i < length xs then xs ! i else VOpaque)
     | _ \<Rightarrow> VOpaque)"

definition deref :: "go_value \<Rightarrow> go_value option" where
  "deref v = (case unwrap v of VPtr p \<Rightarrow> p | _ \<Rightarrow> None)"

definition mapOf :: "go_value \<Rightarrow> (go_value \<times> go_value) list option" where
  "mapOf v = (case unwrap v of VMap m \<Rightarrow> m | _ \<Rightarrow> None)"

definition methodsOf :: "go_value \<Rightarrow> methods" where
  "methodsOf v = (case v of VNamed m _ \<Rightarrow> m
                    | _ \<Rightarrow> \<lparr>mString = [], mJSONEncode = [], mMarshalText = []\<rparr>)"

section \<open>Primitive conversions (ptrconvert.go)\<close>

text \<open>\<open>strconv.AppendUint\<close> and \<open>strconv.AppendInt\<close> in base 10.\<close>

definition digit :: "nat \<Rightarrow> char" where
  "digit d = ''0123456789'' ! d"

function AppendUint :: "string \<Rightarrow> nat \<Rightarrow> string" where
  "AppendUint b n = (if n < 10 then b @ [digit n] else AppendUint b (n div 10) @ [digit (n mod 10)])"
  by pat_completeness auto
termination
  by (relation "measure snd") auto

definition AppendInt :: "string \<Rightarrow> int \<Rightarrow> string" where
  "AppendInt b i = (if i < 0 then AppendUint (b @ ''-'') (nat (- i)) else AppendUint b (nat i))"

definition btrue :: string where "btrue = ''true''"
definition bfalse :: string where "bfalse = ''false''"

text \<open>
  \<^verbatim>\<open>
  func ptrBoolToBuf(v unsafe.Pointer, b *Buffer) {
      r := *(*bool)(v)
      if r {
          b.Write(btrue)
      }
      b.Write(bfalse)
  }
  \<close>
\<close>

definition ptrBoolToBuf :: "go_value \<Rightarrow> Buffer \<Rightarrow> Buffer" where
  "ptrBoolToBuf v b =
     (let r = asBool v;
          b1 = (if r then Write b btrue else b)
      in Write b1 bfalse)"

definition ptrIntToBuf :: "go_value \<Rightarrow> Buffer \<Rightarrow> Buffer" where
  "ptrIntToBuf v b = b\<lparr>Bytes := AppendInt (Bytes b) (asInt v)\<rparr>"

definition ptrUintToBuf :: "go_value \<Rightarrow> Buffer \<Rightarrow> Buffer" where
  "ptrUintToBuf v b = b\<lparr>Bytes := AppendUint (Bytes b) (nat (asInt v))\<rparr>"

definition ptrFloatToBuf :: "go_value \<Rightarrow> Buffer \<Rightarrow> Buffer" where
  "ptrFloatToBuf v b = b\<lparr>Bytes := Bytes b @ asFloatText v\<rparr>"

definition ptrStringToBuf :: "go_value \<Rightarrow> Buffer \<Rightarrow> Buffer" where
  "ptrStringToBuf v b = Write b (asBytes v)"

text \<open>
  Modelled from the spec: \<open>ptrTimeToBuf\<close> is used by the struct and slice encoders but
  is not among the sources; as a primitive rendering it appends the text of the value.
\<close>

definition ptrTimeToBuf :: "go_value \<Rightarrow> Buffer \<Rightarrow> Buffer" where
  "ptrTimeToBuf v b = Write b (asTimeText v)"

section \<open>Reflection on shapes\<close>

fun kindOfLeaf :: "leaf \<Rightarrow> Kind" where
  "kindOfLeaf LBool = KBool"
| "kindOfLeaf LInt = KInt"
| "kindOfLeaf LInt8 = KInt8"
| "kindOfLeaf LInt16 = KInt16"
| "kindOfLeaf LInt32 = KInt32"
| "kindOfLeaf LInt64 = KInt64"
| "kindOfLeaf LUint = KUint"
| "kindOfLeaf LUint8 = KUint8"
| "kindOfLeaf LUint16 = KUint16"
| "kindOfLeaf LUint32 = KUint32"
| "kindOfLeaf LUint64 = KUint64"
| "kindOfLeaf LUintptr = KUintptr"
| "kindOfLeaf LFloat32 = KFloat32"
| "kindOfLeaf LFloat64 = KFloat64"
| "kindOfLeaf LComplex64 = KComplex64"
| "kindOfLeaf LComplex128 = KComplex128"
| "kindOfLeaf LChan = KChan"
| "kindOfLeaf LFunc = KFunc"
| "kindOfLeaf LInterface = KInterface"
| "kindOfLeaf LString = KString"
| "kindOfLeaf LUnsafePointer = KUnsafePointer"

text \<open>\<open>Type.Kind()\<close>: a defined type has the kind of its underlying type.\<close>

fun kindOf :: "go_type \<Rightarrow> Kind" where
  "kindOf (TLeaf l) = kindOfLeaf l"
| "kindOf (TArray n t) = KArray"
| "kindOf (TSlice t) = KSlice"
| "kindOf (TStruct fs) = KStruct"
| "kindOf (TMap k e) = KMap"
| "kindOf (TPtr t) = KPtr"
| "kindOf TTime = KStruct"
| "kindOf (TNamed vm pm t) = kindOf t"

fun underlying :: "go_type \<Rightarrow> go_type" where
  "underlying (TNamed vm pm t) = underlying t"
| "underlying (TLeaf l) = TLeaf l"
| "underlying (TArray n t) = TArray n t"
| "underlying (TSlice t) = TSlice t"
| "underlying (TStruct fs) = TStruct fs"
| "underlying (TMap k e) = TMap k e"
| "underlying (TPtr t) = TPtr t"
| "underlying TTime = TTime"

text \<open>\<open>Kind.String()\<close>, as \<open>fmt.Sprint\<close> prints a kind.\<close>

fun kindString :: "Kind \<Rightarrow> string" where
  "kindString KInvalid = ''invalid''"
| "kindString KBool = ''bool''"
| "kindString KInt = ''int''"
| "kindString KInt8 = ''int8''"
| "kindString KInt16 = ''int16''"
| "kindString KInt32 = ''int32''"
| "kindString KInt64 = ''int64''"
| "kindString KUint = ''uint''"
| "kindString KUint8 = ''uint8''"
| "kindString KUint16 = ''uint16''"
| "kindString KUint32 = ''uint32''"
| "kindString KUint64 = ''uint64''"
| "kindString KUintptr = ''uintptr''"
| "kindString KFloat32 = ''float32''"
| "kindString KFloat64 = ''float64''"
| "kindString KComplex64 = ''complex64''"
| "kindString KComplex128 = ''complex128''"
| "kindString KArray = ''array''"
| "kindString KChan = ''chan''"
| "kindString KFunc = ''func''"
| "kindString KInterface = ''interface''"
| "kindString KMap = ''map''"
| "kindString KPtr = ''ptr''"
| "kindString KSlice = ''slice''"
| "kindString KString = ''string''"
| "kindString KStruct = ''struct''"
| "kindString KUnsafePointer = ''unsafe.Pointer''"

text \<open>
  The method set of a type, by method name: a defined type has its value-receiver
  methods, a pointer to a defined type has those and the pointer-receiver ones (unless the
  defined type is itself a pointer or an interface). Of \<open>time.Time\<close> only the two
  methods the encoders ask for are listed.
\<close>

definition timeMethods :: "string list" where
  "timeMethods = [''String'', ''MarshalText'']"

fun methodSet :: "go_type \<Rightarrow> string list" where
  "methodSet (TNamed vm pm t) = vm"
| "methodSet (TPtr (TNamed vm pm t)) =
     (if kindOf t = KInterface \<or> kindOf t = KPtr then [] else vm @ pm)"
| "methodSet TTime = timeMethods"
| "methodSet (TPtr TTime) = timeMethods"
| "methodSet t = []"

text \<open>\<open>Type.Implements(textMarshalerType)\<close>.\<close>

definition implementsTextMarshaler :: "go_type \<Rightarrow> bool" where
  "implementsTextMarshaler t = (''MarshalText'' \<in> set (methodSet t))"

section \<open>Struct tags (structencoder.go)\<close>

text \<open>
  \<^verbatim>\<open>
  func parseTag(tag string) (string, tagOptions) {
      if idx := strings.Index(tag, ","); idx != -1 {
          return tag[:idx], tagOptions(tag[idx+1:])
      }
      return tag, tagOptions("")
  }
  \<close>
\<close>

definition beforeComma :: "string \<Rightarrow> string" where
  "beforeComma s = takeWhile (\<lambda>c. c \<noteq> CHR '','') s"

definition afterComma :: "string \<Rightarrow> string" where
  "afterComma s = tl (dropWhile (\<lambda>c. c \<noteq> CHR '','') s)"

definition parseTag :: "string \<Rightarrow> string \<times> string" where
  "parseTag tag =
     (if CHR '','' \<in> set tag then (beforeComma tag, afterComma tag) else (tag, []))"

lemma length_tl_le: "xs \<noteq> [] \<Longrightarrow> length ys \<le> length xs \<Longrightarrow> length (tl ys) < length xs"
  by (cases ys) auto

lemma length_afterComma: "s \<noteq> [] \<Longrightarrow> length (afterComma s) < length s"
  unfolding afterComma_def by (rule length_tl_le) (simp_all add: length_dropWhile_le)

text \<open>
  \<open>tagOptions.Contains\<close>: the loop takes the text up to the next comma, compares it
  with the option name, and goes on with what follows the comma.
\<close>

function Contains :: "string \<Rightarrow> string \<Rightarrow> bool" where
  "Contains s optionName =
     (if s = [] then False
      else if (if CHR '','' \<in> set s then beforeComma s else s) = optionName then True
      else Contains (if CHR '','' \<in> set s then afterComma s else []) optionName)"
  by pat_completeness auto
termination
  by (relation "measure (\<lambda>(s, n). length s)") (auto simp: length_afterComma)

declare Contains.simps [simp del]

section \<open>Errors and instructions\<close>

text \<open>
  A Go panic is a value of \<open>error\<close> carrying the panic's text. An instruction is the Go
  closure \<open>func(unsafe.Pointer, *Buffer)\<close>: it reads the value it is pointed at and
  returns the updated buffer, or the panic raised while running. An instruction that walks a
  slice header loaded from memory that holds no slice prints what the neighbouring memory
  dictates, or faults: the run is \<open>Unpredictable\<close>, an outcome that is neither a buffer
  nor a panic with a known text.
\<close>

datatype error = Panic string | Unpredictable

type_synonym closure = "go_value \<Rightarrow> Buffer \<Rightarrow> error + Buffer"

definition thenE :: "error + 'a \<Rightarrow> ('a \<Rightarrow> error + 'b) \<Rightarrow> error + 'b" where
  "thenE r f = (case r of Inl e \<Rightarrow> Inl e | Inr x \<Rightarrow> f x)"

definition conv :: "(go_value \<Rightarrow> Buffer \<Rightarrow> Buffer) \<Rightarrow> closure" where
  "conv f = (\<lambda>v w. Inr (f v w))"

text \<open>
  The table \<open>typeconv\<close> of ptrconvert.go. The Go functions for the integer widths differ
  only in the width of the load (\<open>ptrInt8ToBuf\<close>, \<open>ptrInt16ToBuf\<close>, ...); here the
  value read is already an \<^typ>\<open>int\<close>.
\<close>

fun typeconv :: "Kind \<Rightarrow> closure option" where
  "typeconv KBool = Some (conv ptrBoolToBuf)"
| "typeconv KInt = Some (conv ptrIntToBuf)"
| "typeconv KInt8 = Some (conv ptrIntToBuf)"
| "typeconv KInt16 = Some (conv ptrIntToBuf)"
| "typeconv KInt32 = Some (conv ptrIntToBuf)"
| "typeconv KInt64 = Some (conv ptrIntToBuf)"
| "typeconv KUint = Some (conv ptrUintToBuf)"
| "typeconv KUint8 = Some (conv ptrUintToBuf)"
| "typeconv KUint16 = Some (conv ptrUintToBuf)"
| "typeconv KUint32 = Some (conv ptrUintToBuf)"
| "typeconv KUint64 = Some (conv ptrUintToBuf)"
| "typeconv KFloat32 = Some (conv ptrFloatToBuf)"
| "typeconv KFloat64 = Some (conv ptrFloatToBuf)"
| "typeconv KString = Some (conv ptrStringToBuf)"
| "typeconv k = None"

definition null_bytes :: string where
  "null_bytes = ''null''"

definition emptyObj :: string where
  "emptyObj = ''{}''"

definition nilCall :: error where
  "nilCall = Panic ''runtime error: invalid memory address or nil pointer dereference''"

text \<open>
  A \<open>for i := 0; i < n; i++\<close> loop over the elements of a slice, or over the entries a
  map iterator yields: the body gets the index and the element.
\<close>

fun forEach :: "(nat \<Rightarrow> 'a \<Rightarrow> Buffer \<Rightarrow> error + Buffer) \<Rightarrow> nat \<Rightarrow> 'a list \<Rightarrow> Buffer \<Rightarrow> error + Buffer" where
  "forEach body i [] w = Inr w"
| "forEach body i (x # xs) w = thenE (body i x w) (forEach body (Suc i) xs)"

text \<open>The kinds of the first case of \<open>valueInst\<close> and of the map encoder's switches.\<close>

fun primKind :: "Kind \<Rightarrow> bool" where
  "primKind KBool = True"
| "primKind KInt = True"
| "primKind KInt8 = True"
| "primKind KInt16 = True"
| "primKind KInt32 = True"
| "primKind KInt64 = True"
| "primKind KUint = True"
| "primKind KUint8 = True"
| "primKind KUint16 = True"
| "primKind KUint32 = True"
| "primKind KUint64 = True"
| "primKind KFloat32 = True"
| "primKind KFloat64 = True"
| "primKind k = False"

text \<open>
  \<open>Type.Elem()\<close>, which panics on a type with no element type, and the type a field's
  encoder is built for: the pointee of a pointer field, else the field's own type.
\<close>

definition ElemOf :: "go_type \<Rightarrow> go_type option" where
  "ElemOf t = (case underlying t of
       TArray n e \<Rightarrow> Some e
     | TSlice e \<Rightarrow> Some e
     | TPtr e \<Rightarrow> Some e
     | TMap k e \<Rightarrow> Some e
     | _ \<Rightarrow> None)"

definition pointee :: "go_type \<Rightarrow> go_type" where
  "pointee t = (case underlying t of TPtr e \<Rightarrow> e | _ \<Rightarrow> t)"

lemma size_underlying: "size (underlying t) \<le> size t"
  by (induction t rule: underlying.induct) auto

lemma size_ElemOf [termination_simp]: "ElemOf t = Some e \<Longrightarrow> size e < size t"
  using size_underlying [of t]
  by (auto simp: ElemOf_def split: go_type.splits)

lemma size_pointee [termination_simp]: "size (pointee t) \<le> size t"
  using size_underlying [of t]
  by (auto simp: pointee_def split: go_type.splits)

section \<open>Configuration (mapencoder.go)\<close>

record Config =
  mapEncoder :: "8 word"

definition sortMapKeys :: "8 word" where
  "sortMapKeys = 1"

definition SetSortMapKeys :: "Config \<Rightarrow> bool \<Rightarrow> Config" where
  "SetSortMapKeys c on =
     (if on then c\<lparr>mapEncoder := mapEncoder c OR sortMapKeys\<rparr>
      else c\<lparr>mapEncoder := mapEncoder c AND NOT sortMapKeys\<rparr>)"

definition SortMapKeys :: "Config \<Rightarrow> bool" where
  "SortMapKeys c = (mapEncoder c AND sortMapKeys \<noteq> 0)"

definition DefaultConfig :: Config where
  "DefaultConfig = SetSortMapKeys \<lparr>mapEncoder = 0\<rparr> False"

section \<open>The three encoders\<close>

text \<open>
  A \<open>SliceEncoder\<close> whose constructor returned without assigning the instruction holds
  a nil function, \<open>None\<close> here, and calling it panics.
\<close>

record StructEncoder =
  instructions :: "closure list"
  cb :: Buffer
  cpos :: nat

record SliceEncoder =
  instruction :: "closure option"

record MapEncoder =
  map_instruction :: closure

fun runInstructions :: "closure list \<Rightarrow> go_value \<Rightarrow> Buffer \<Rightarrow> error + Buffer" where
  "runInstructions [] p w = Inr w"
| "runInstructions (i # is) p w = thenE (i p w) (runInstructions is p)"

definition StructEncoder_Marshal :: "StructEncoder \<Rightarrow> go_value \<Rightarrow> Buffer \<Rightarrow> error + Buffer" where
  "StructEncoder_Marshal e s w = runInstructions (instructions e) s w"

definition SliceEncoder_Marshal :: "SliceEncoder \<Rightarrow> go_value \<Rightarrow> Buffer \<Rightarrow> error + Buffer" where
  "SliceEncoder_Marshal e s w = (case instruction e of None \<Rightarrow> Inl nilCall | Some i \<Rightarrow> i s w)"

definition MapEncoder_Marshal :: "MapEncoder \<Rightarrow> go_value \<Rightarrow> Buffer \<Rightarrow> error + Buffer" where
  "MapEncoder_Marshal e s w = map_instruction e s w"

section \<open>Slice instructions (sliceencoder.go)\<close>

definition comma :: "nat \<Rightarrow> Buffer \<Rightarrow> Buffer" where
  "comma i w = (if i > 0 then WriteByte w CHR '','' else w)"

definition bracketed :: "(Buffer \<Rightarrow> error + Buffer) \<Rightarrow> Buffer \<Rightarrow> error + Buffer" where
  "bracketed loop w = thenE (loop (WriteByte w CHR ''['')) (\<lambda>w1. Inr (WriteByte w1 CHR '']''))"

text \<open>
  The frame every slice instruction shares: \<open>[\<close>, the slice header loaded at \<open>v\<close>
  (\<open>sl := *(*reflect.SliceHeader)(v)\<close>), the loop over its \<open>sl.Len\<close> elements, \<open>]\<close>.
\<close>

definition overSlice :: "go_value \<Rightarrow> (go_value list \<Rightarrow> Buffer \<Rightarrow> error + Buffer)
    \<Rightarrow> Buffer \<Rightarrow> error + Buffer" where
  "overSlice v loop w =
     (case elems v of
        None \<Rightarrow> Inl Unpredictable
      | Some sl \<Rightarrow> bracketed (loop sl) w)"

definition sliceInstr :: "SliceEncoder \<Rightarrow> SliceEncoder" where
  "sliceInstr enc = \<lparr>instruction = Some (\<lambda>v. overSlice v (\<lambda>sl.
     forEach (\<lambda>i s w. SliceEncoder_Marshal enc s (comma i w)) 0 sl))\<rparr>"

definition structInstr :: "StructEncoder \<Rightarrow> SliceEncoder" where
  "structInstr enc = \<lparr>instruction = Some (\<lambda>v. overSlice v (\<lambda>sl.
     forEach (\<lambda>i s w. StructEncoder_Marshal enc s (comma i w)) 0 sl))\<rparr>"

definition mapInstr :: "MapEncoder \<Rightarrow> SliceEncoder" where
  "mapInstr enc = \<lparr>instruction = Some (\<lambda>v. overSlice v (\<lambda>sl.
     forEach (\<lambda>i s w. MapEncoder_Marshal enc s (comma i w)) 0 sl))\<rparr>"

text \<open>
  \<open>stringInstr\<close> writes the opening quote before the first element, \<open>","\<close> between
  elements and the closing quote after the last one (\<open>i == uintptr(sl.Len)-1\<close>).
\<close>

definition stringInstr :: "closure \<Rightarrow> SliceEncoder" where
  "stringInstr cv = \<lparr>instruction = Some (\<lambda>v. overSlice v (\<lambda>sl.
     forEach (\<lambda>i s w.
        let w1 = (if i = 0 then WriteByte w CHR 0x22 else w);
            w2 = (if i > 0 then Write w1 [CHR 0x22, CHR '','', CHR 0x22] else w1)
        in thenE (cv s w2) (\<lambda>w3.
             Inr (if i = length sl - 1 then WriteByte w3 CHR 0x22 else w3)))
       0 sl))\<rparr>"

definition otherInstr :: "Kind \<Rightarrow> SliceEncoder" where
  "otherInstr k = (case typeconv k of
       None \<Rightarrow> \<lparr>instruction = None\<rparr>
     | Some cv \<Rightarrow> \<lparr>instruction = Some (\<lambda>v. overSlice v (\<lambda>sl.
         forEach (\<lambda>i s w. cv s (comma i w)) 0 sl))\<rparr>)"

definition timeInstr :: SliceEncoder where
  "timeInstr = \<lparr>instruction = Some (\<lambda>v. overSlice v (\<lambda>sl.
     forEach (\<lambda>i s w.
        Inr (WriteByte (ptrTimeToBuf s (WriteByte (comma i w) CHR 0x22)) CHR 0x22))
       0 sl))\<rparr>"

text \<open>
  The loops over pointer elements load the pointer, write \<open>null\<close> and go on when it is
  nil, and otherwise hand the pointee to the inner conversion.
\<close>

definition ptrElem :: "closure \<Rightarrow> nat \<Rightarrow> go_value \<Rightarrow> Buffer \<Rightarrow> error + Buffer" where
  "ptrElem inner i s w =
     (case deref s of
        None \<Rightarrow> Inr (Write (comma i w) null_bytes)
      | Some p \<Rightarrow> inner p (comma i w))"

definition ptrStrctInstr :: "StructEncoder \<Rightarrow> SliceEncoder" where
  "ptrStrctInstr enc = \<lparr>instruction = Some (\<lambda>v. overSlice v (\<lambda>sl.
     forEach (ptrElem (StructEncoder_Marshal enc)) 0 sl))\<rparr>"

definition ptrMapInstr :: "MapEncoder \<Rightarrow> SliceEncoder" where
  "ptrMapInstr enc = \<lparr>instruction = Some (\<lambda>v. overSlice v (\<lambda>sl.
     forEach (ptrElem (MapEncoder_Marshal enc)) 0 sl))\<rparr>"

definition ptrStringInstr :: "closure \<Rightarrow> SliceEncoder" where
  "ptrStringInstr cv = \<lparr>instruction = Some (\<lambda>v. overSlice v (\<lambda>sl.
     forEach (ptrElem (\<lambda>s w.
        thenE (cv s (WriteByte w CHR 0x22)) (\<lambda>w1. Inr (WriteByte w1 CHR 0x22)))) 0 sl))\<rparr>"

definition ptrOtherInstr :: "Kind \<Rightarrow> SliceEncoder" where
  "ptrOtherInstr k = (case typeconv k of
       None \<Rightarrow> \<lparr>instruction = None\<rparr>
     | Some cv \<Rightarrow> \<lparr>instruction = Some (\<lambda>v. overSlice v (\<lambda>sl.
         forEach (ptrElem cv) 0 sl))\<rparr>)"

definition ptrTimeInstr :: SliceEncoder where
  "ptrTimeInstr = \<lparr>instruction = Some (\<lambda>v. overSlice v (\<lambda>sl.
     forEach (ptrElem (\<lambda>s w.
        Inr (WriteByte (ptrTimeToBuf s (WriteByte w CHR 0x22)) CHR 0x22))) 0 sl))\<rparr>"

text \<open>
  \<open>ptrSliceInstr\<close> asks for \<open>reflect.New(e.tt.Elem()).Elem().Elem().Interface()\<close>: the
  second \<open>Elem()\<close> is taken of a nil pointer and gives the zero \<open>Value\<close>, on which
  \<open>Interface()\<close> panics, before any instruction is built.
\<close>

definition ptrSliceInstr :: "error + SliceEncoder" where
  "ptrSliceInstr = Inl (Panic ''reflect: call of reflect.Value.Interface on zero Value'')"

section \<open>Map instructions (mapencoder.go)\<close>

text \<open>
  \<open>bytes.Compare\<close> is the lexicographic order on byte strings, and \<open>mapSlice.Less\<close>
  compares the rendered key texts of two entries with it. An entry \<open>unsafeke\<close> of the
  \<open>mapSlice\<close> is the pair of its key text and its element: the slice header \<open>k\<close>
  is represented by the bytes it covers.

  \<open>sort.Sort\<close> belongs to the standard library. It is a parameter \<open>srt\<close> of the
  encoders, and \<open>sorts srt\<close> is its contract: the result is a permutation of the
  entries in which no entry is \<open>Less\<close> than one before it.
\<close>

type_synonym unsafeke = "string \<times> go_value"

definition bytes_Compare :: "string \<Rightarrow> string \<Rightarrow> int" where
  "bytes_Compare a b = (if a < b then - 1 else if a = b then 0 else 1)"

definition mapSlice_Less :: "unsafeke \<Rightarrow> unsafeke \<Rightarrow> bool" where
  "mapSlice_Less x y = (bytes_Compare (fst x) (fst y) < 0)"

definition sorts :: "(unsafeke list \<Rightarrow> unsafeke list) \<Rightarrow> bool" where
  "sorts srt = (\<forall>kvs. mset (srt kvs) = mset kvs
                    \<and> sorted_wrt (\<lambda>x y. \<not> mapSlice_Less y x) (srt kvs))"

definition ptrStrElemInstr :: closure where
  \<open>ptrStrElemInstr = (\<lambda>v w.
     case deref v of
       None \<Rightarrow> Inr (Write w null_bytes)
     | Some p \<Rightarrow> Inr (WriteByte (ptrStringToBuf p (WriteByte w CHR ''"'')) CHR ''"''))\<close>

definition ptrElemInstr :: "closure \<Rightarrow> closure" where
  "ptrElemInstr cv = (\<lambda>v w.
     case deref v of
       None \<Rightarrow> Inr (Write w null_bytes)
     | Some p \<Rightarrow> cv p w)"

definition ptrKeyInstr :: "closure \<Rightarrow> closure" where
  "ptrKeyInstr cv = (\<lambda>v w.
     case deref v of
       None \<Rightarrow> Inr w
     | Some p \<Rightarrow> cv p w)"

text \<open>
  The two closures over \<open>MarshalText\<close> in \<open>NewMapEncoderWithConfig\<close>: the element is
  written between quotes, the key as it is.
\<close>

definition textElemConv :: closure where
  \<open>textElemConv = (\<lambda>v w.
     let k = mMarshalText (methodsOf v)
     in Inr (WriteByte (ptrStringToBuf (VStr k) (WriteByte w CHR ''"'')) CHR ''"''))\<close>

definition textKeyConv :: closure where
  "textKeyConv = (\<lambda>v w.
     let k = mMarshalText (methodsOf v)
     in Inr (ptrStringToBuf (VStr k) w))"

definition quotedStringConv :: closure where
  \<open>quotedStringConv = (\<lambda>v w.
     Inr (WriteByte (ptrStringToBuf v (WriteByte w CHR ''"'')) CHR ''"''))\<close>

definition sortStrStrInstr :: "(unsafeke list \<Rightarrow> unsafeke list) \<Rightarrow> closure" where
  \<open>sortStrStrInstr srt = (\<lambda>p w.
     case mapOf p of
       None \<Rightarrow> Inr (Write w null_bytes)
     | Some m \<Rightarrow>
         let mlen = length m in
         if mlen = 0 then Inr (Write w emptyObj)
         else
           let kvs = map (\<lambda>(k, e). (asBytes k, e)) m;
               sorted_kvs = srt kvs
           in thenE
                (forEach (\<lambda>i ke w1.
                    let w2 = (if i \<noteq> 0 then Write w1 ''","'' else w1);
                        w3 = ptrStringToBuf (VStr (fst ke)) w2;
                        w4 = Write w3 ''":"''
                    in Inr (ptrStringToBuf (snd ke) w4))
                  0 sorted_kvs (Write w ''{"''))
                (\<lambda>w5. Inr (Write w5 ''"}'')))\<close>

definition strStrInstr :: closure where
  \<open>strStrInstr = (\<lambda>p w.
     case mapOf p of
       None \<Rightarrow> Inr (Write w null_bytes)
     | Some m \<Rightarrow>
         if length m = 0 then Inr (Write w emptyObj)
         else thenE
                (forEach (\<lambda>i (k, e) w1.
                    let w2 = (if i \<noteq> 0 then Write w1 ''","'' else w1);
                        w3 = ptrStringToBuf k w2;
                        w4 = Write w3 ''":"''
                    in Inr (ptrStringToBuf e w4))
                  0 m (Write w ''{"''))
                (\<lambda>w5. Inr (Write w5 ''"}'')))\<close>

text \<open>
  The first pass of \<open>sortInstr\<close>: each key is rendered at the end of the buffer and
  the entry records the span \<open>[start, start + klen)\<close> of the buffer it was written to,
  with the element's address.
\<close>

fun renderKeys :: "closure \<Rightarrow> (go_value \<times> go_value) list \<Rightarrow> unsafeke list \<Rightarrow> Buffer
    \<Rightarrow> error + (unsafeke list \<times> Buffer)" where
  "renderKeys kconv [] kvs w = Inr (kvs, w)"
| "renderKeys kconv ((k, e) # m) kvs w =
     (let start = length (Bytes w) in
      thenE (kconv k w) (\<lambda>w1.
        let klen = length (Bytes w1) - start
        in renderKeys kconv m (kvs @ [(take klen (drop start (Bytes w1)), e)]) w1))"

text \<open>
  The body of the second loop of \<open>sortInstr\<close>, for the entry at index \<open>i\<close> of the
  sorted \<open>mapSlice\<close>: the key's bytes are appended from the span, then the element is
  rendered.
\<close>

definition sortEmit :: "closure \<Rightarrow> nat \<Rightarrow> unsafeke \<Rightarrow> Buffer \<Rightarrow> error + Buffer" where
  \<open>sortEmit econv i ke w2 =
     (let w3 = (if i \<noteq> 0 then Write w2 '',"'' else w2);
          w4 = w3\<lparr>Bytes := Bytes w3 @ fst ke\<rparr>;
          w5 = Write w4 ''":''
      in econv (snd ke) w5)\<close>

definition sortInstr :: "(unsafeke list \<Rightarrow> unsafeke list) \<Rightarrow> closure \<Rightarrow> closure \<Rightarrow> closure" where
  \<open>sortInstr srt kconv econv = (\<lambda>p w.
     case mapOf p of
       None \<Rightarrow> Inr (Write w null_bytes)
     | Some m \<Rightarrow>
         let mlen = length m in
         if mlen = 0 then Inr (Write w emptyObj)
         else
           let bufStart = length (Bytes w) in
           thenE (renderKeys kconv m [] w) (\<lambda>(kvs, w1).
             let bufEnd = length (Bytes w1);
                 sorted_kvs = srt kvs
             in thenE
                  (forEach (sortEmit econv) 0 sorted_kvs (Write w1 ''{"''))
                  (\<lambda>w6.
                     let w7 = w6\<lparr>Bytes := take bufStart (Bytes w6) @ drop bufEnd (Bytes w6)\<rparr>
                     in Inr (WriteByte w7 CHR ''}''))))\<close>

definition instr :: "closure \<Rightarrow> closure \<Rightarrow> closure" where
  \<open>instr kconv econv = (\<lambda>p w.
     case mapOf p of
       None \<Rightarrow> Inr (Write w null_bytes)
     | Some m \<Rightarrow>
         if length m = 0 then Inr (Write w emptyObj)
         else thenE
                (forEach (\<lambda>i (k, e) w1.
                    let w2 = (if i \<noteq> 0 then Write w1 '',"'' else w1)
                    in thenE (kconv k w2) (\<lambda>w3. econv e (Write w3 ''":'')))
                  0 m (Write w ''{"''))
                (\<lambda>w4. Inr (WriteByte w4 CHR ''}'')))\<close>

text \<open>
  The element conversion of \<open>NewMapEncoderWithConfig\<close>, for the element type \<open>et\<close>.
  The encoders of a nested slice, struct or map (built for the pointee when the element
  is a pointer) are passed in: \<open>NewMapEncoderWithConfig\<close> below builds them.
\<close>

definition marshalSlice :: "error + SliceEncoder \<Rightarrow> (closure \<Rightarrow> closure) \<Rightarrow> error + closure" where
  "marshalSlice enc wrap = (case enc of Inl x \<Rightarrow> Inl x | Inr e \<Rightarrow> Inr (wrap (SliceEncoder_Marshal e)))"

definition marshalStruct :: "error + StructEncoder \<Rightarrow> (closure \<Rightarrow> closure) \<Rightarrow> error + closure" where
  "marshalStruct enc wrap = (case enc of Inl x \<Rightarrow> Inl x | Inr e \<Rightarrow> Inr (wrap (StructEncoder_Marshal e)))"

definition marshalMap :: "error + MapEncoder \<Rightarrow> (closure \<Rightarrow> closure) \<Rightarrow> error + closure" where
  "marshalMap enc wrap = (case enc of Inl x \<Rightarrow> Inl x | Inr e \<Rightarrow> Inr (wrap (MapEncoder_Marshal e)))"

definition elemConv :: "go_type \<Rightarrow> error + SliceEncoder \<Rightarrow> error + StructEncoder \<Rightarrow> error + MapEncoder
    \<Rightarrow> error + closure" where
  "elemConv et newSlice newStruct newMap =
     (if implementsTextMarshaler et then
        (if kindOf et = KPtr then Inr (ptrElemInstr textElemConv) else Inr textElemConv)
      else if kindOf et = KSlice then marshalSlice newSlice (\<lambda>c. c)
      else if kindOf et = KStruct then marshalStruct newStruct (\<lambda>c. c)
      else if kindOf et = KMap then marshalMap newMap (\<lambda>c. c)
      else if kindOf et = KPtr then
        (let k = kindOf (pointee et) in
         if k = KSlice then marshalSlice newSlice ptrElemInstr
         else if k = KStruct then marshalStruct newStruct ptrElemInstr
         else if k = KMap then marshalMap newMap ptrElemInstr
         else if k = KString then Inr ptrStrElemInstr
         else if primKind k then
           (case typeconv k of Some cv \<Rightarrow> Inr (ptrElemInstr cv) | None \<Rightarrow> Inr (ptrElemInstr (\<lambda>v w. Inl nilCall)))
         else Inl (Panic ''unsupported ptr elem type''))
      else if kindOf et = KString then Inr quotedStringConv
      else if primKind (kindOf et) then
        (case typeconv (kindOf et) of Some cv \<Rightarrow> Inr cv | None \<Rightarrow> Inr (\<lambda>v w. Inl nilCall))
      else Inl (Panic ''unsupported elem type''))"

definition keyConv :: "go_type \<Rightarrow> error + closure" where
  "keyConv kt =
     (if primKind (kindOf kt) \<or> kindOf kt = KString then
        (case typeconv (kindOf kt) of Some cv \<Rightarrow> Inr cv | None \<Rightarrow> Inr (\<lambda>v w. Inl nilCall))
      else if implementsTextMarshaler kt then
        (if kindOf kt = KPtr then Inr (ptrKeyInstr textKeyConv) else Inr textKeyConv)
      else Inl (Panic ''unsupported key type''))"

section \<open>Struct instructions (structencoder.go)\<close>

definition chunk :: "StructEncoder \<Rightarrow> string \<Rightarrow> StructEncoder" where
  "chunk e b = e\<lparr>cb := Write (cb e) b\<rparr>"

text \<open>
  \<^verbatim>\<open>
  func (e *StructEncoder) flunk() {
      b := e.cb.Bytes
      bs := b[e.cpos:]
      e.cpos = len(b)
      if len(bs) == 0 {
          return
      }
      e.instructions = append(e.instructions, func(_ unsafe.Pointer, w *Buffer) {
          w.Write(bs)
      })
  }
  \<close>
\<close>

definition flunk :: "StructEncoder \<Rightarrow> StructEncoder" where
  "flunk e =
     (let b = Bytes (cb e);
          bs = drop (cpos e) b;
          e1 = e\<lparr>cpos := length b\<rparr>
      in if length bs = 0 then e1
         else e1\<lparr>instructions := instructions e1 @ [\<lambda>_ w. Inr (Write w bs)]\<rparr>)"

text \<open>\<open>val\<close>, \<open>ptrval\<close> and \<open>ptrstringval\<close>; \<open>off\<close> stands for \<open>f.Offset\<close>.\<close>

definition val :: "nat \<Rightarrow> StructEncoder \<Rightarrow> closure \<Rightarrow> StructEncoder" where
  "val off e cv =
     (let e1 = flunk e
      in e1\<lparr>instructions := instructions e1 @ [\<lambda>v w. cv (fieldAt v off) w]\<rparr>)"

definition ptrval :: "nat \<Rightarrow> StructEncoder \<Rightarrow> closure \<Rightarrow> StructEncoder" where
  "ptrval off e cv =
     (let e1 = flunk e
      in e1\<lparr>instructions := instructions e1 @ [\<lambda>v w.
           case deref (fieldAt v off) of
             None \<Rightarrow> Inr (Write w null_bytes)
           | Some p \<Rightarrow> cv p w]\<rparr>)"

definition ptrstringval :: "nat \<Rightarrow> StructEncoder \<Rightarrow> closure \<Rightarrow> StructEncoder" where
  \<open>ptrstringval off e cv =
     (let e1 = flunk e
      in e1\<lparr>instructions := instructions e1 @ [\<lambda>v w.
           case deref (fieldAt v off) of
             None \<Rightarrow> Inr (Write w null_bytes)
           | Some p \<Rightarrow> thenE (cv p (WriteByte w CHR ''"'')) (\<lambda>w1. Inr (WriteByte w1 CHR ''"''))]\<rparr>)\<close>

definition elemAt :: "go_value \<Rightarrow> nat \<Rightarrow> go_value" where
  "elemAt v j = (case elems v of
       Some xs \<Rightarrow> (if j < length xs then xs ! j else VOpaque)
     | None \<Rightarrow> VOpaque)"

text \<open>
  The loop of the \<open>reflect.Array\<close> case of \<open>valueInst\<close>, from index \<open>j\<close> with \<open>r\<close>
  indices left: one instruction per index, \<open>", "\<close> before all but the first.
\<close>

fun arrayLoop :: "nat \<Rightarrow> closure \<Rightarrow> nat \<Rightarrow> nat \<Rightarrow> StructEncoder \<Rightarrow> StructEncoder" where
  "arrayLoop off cv j 0 e = e"
| "arrayLoop off cv j (Suc r) e =
     (let e1 = (if j > 0 then chunk e '', '' else e);
          e2 = flunk e1;
          e3 = e2\<lparr>instructions := instructions e2 @ [\<lambda>v w. cv (elemAt (fieldAt v off) j) w]\<rparr>
      in arrayLoop off cv (Suc j) r e3)"

text \<open>
  \<open>valueInst\<close> for the field \<open>f\<close> at index \<open>off\<close>, the kind \<open>k\<close> and the instruction
  maker \<open>ins\<close> (\<open>e.val\<close> or \<open>e.ptrval\<close>). The encoders \<open>valueInst\<close> builds for a nested
  slice (for the field's type), struct or map (for the pointee of a pointer field) are
  passed in as \<open>newSlice\<close>, \<open>newStruct\<close> and \<open>newMap\<close>: the recursion is in
  \<open>NewStructEncoderWithConfig\<close> below. A kind with no case (\<open>reflect.Ptr\<close>) adds
  nothing.

  The slice case, and the struct and map cases of a field that is no pointer, hand the
  constructor \<open>reflect.ValueOf(e.t).Field(e.i).Interface()\<close>, which panics on an
  unexported field before the constructor is entered. The struct and map cases of a pointer
  field hand it \<open>reflect.New(...Type.Elem()).Elem().Interface()\<close>, which does not.
\<close>

definition unexportedPanic :: error where
  "unexportedPanic = Panic
     ''reflect.Value.Interface: cannot return value obtained from unexported field or method''"

definition IsExported :: "field \<Rightarrow> bool" where
  "IsExported f = (PkgPath f = [])"

definition unsupportedKind :: "Kind \<Rightarrow> bool" where
  "unsupportedKind k = (k = KInvalid \<or> k = KInterface \<or> k = KComplex64 \<or> k = KComplex128
     \<or> k = KChan \<or> k = KFunc \<or> k = KUintptr \<or> k = KUnsafePointer)"

definition valueInst :: "StructEncoder \<Rightarrow> field \<Rightarrow> nat \<Rightarrow> Kind
    \<Rightarrow> (StructEncoder \<Rightarrow> closure \<Rightarrow> StructEncoder)
    \<Rightarrow> error + SliceEncoder \<Rightarrow> error + StructEncoder \<Rightarrow> error + MapEncoder
    \<Rightarrow> error + StructEncoder" where
  \<open>valueInst e f off k ins newSlice newStruct newMap =
     (if primKind k then
        (case typeconv k of None \<Rightarrow> Inr e | Some cv \<Rightarrow> Inr (ins e cv))
      else if k = KArray then
        (let e1 = chunk e ''[''
         in case ElemOf (Type f) of
              None \<Rightarrow> Inl (Panic ''reflect: Elem of invalid type'')
            | Some el \<Rightarrow>
                (case typeconv (kindOf el) of
                   None \<Rightarrow> Inr e1
                 | Some cv \<Rightarrow>
                     (case underlying (Type f) of
                        TArray n t \<Rightarrow> Inr (chunk (arrayLoop off cv 0 n e1) '']'')
                      | _ \<Rightarrow> Inl (Panic ''reflect: Len of non-array type''))))
      else if k = KSlice then
        (let e1 = flunk e
         in if \<not> IsExported f then Inl unexportedPanic
            else
              case newSlice of
                Inl x \<Rightarrow> Inl x
              | Inr enc \<Rightarrow> Inr (e1\<lparr>instructions := instructions e1 @
                    [\<lambda>v w. SliceEncoder_Marshal enc (fieldAt v off) w]\<rparr>))
      else if k = KString then
        (if kindOf (Type f) = KPtr then Inr (ptrstringval off e (conv ptrStringToBuf))
         else Inr (chunk (ins (chunk e ''"'') (conv ptrStringToBuf)) ''"''))
      else if k = KStruct then
        (let e1 = flunk e
         in if kindOf (Type f) = KPtr then
              (case newStruct of
                 Inl x \<Rightarrow> Inl x
               | Inr enc \<Rightarrow>
                   Inr (e1\<lparr>instructions := instructions e1 @ [\<lambda>v w.
                     case deref (fieldAt v off) of
                       None \<Rightarrow> Inr (Write w null_bytes)
                     | Some em \<Rightarrow> StructEncoder_Marshal enc em w]\<rparr>))
            else if \<not> IsExported f then Inl unexportedPanic
            else
              (case newStruct of
                 Inl x \<Rightarrow> Inl x
               | Inr enc \<Rightarrow>
                   Inr (e1\<lparr>instructions := instructions e1 @
                     [\<lambda>v w. StructEncoder_Marshal enc (fieldAt v off) w]\<rparr>)))
      else if k = KMap then
        (let e1 = flunk e
         in if kindOf (Type f) = KPtr then
              (case newMap of
                 Inl x \<Rightarrow> Inl x
               | Inr enc \<Rightarrow>
                   Inr (e1\<lparr>instructions := instructions e1 @ [\<lambda>v w.
                     case deref (fieldAt v off) of
                       None \<Rightarrow> Inr (Write w null_bytes)
                     | Some em \<Rightarrow> MapEncoder_Marshal enc em w]\<rparr>))
            else if \<not> IsExported f then Inl unexportedPanic
            else
              (case newMap of
                 Inl x \<Rightarrow> Inl x
               | Inr enc \<Rightarrow>
                   Inr (e1\<lparr>instructions := instructions e1 @
                     [\<lambda>v w. MapEncoder_Marshal enc (fieldAt v off) w]\<rparr>)))
      else if unsupportedKind k then
        Inl (Panic (''unsupported type '' @ kindString (kindOf (Type f)) @ Name f))
      else Inr e)\<close>

text \<open>
  The conversions of the \<open>stringer\<close>, \<open>encoder\<close> and \<open>raw\<close> options, for the type
  \<open>t\<close> the conversion is built for. \<open>reflect.NewAt(t, v).Interface()\<close> is a \<open>*t\<close>,
  so the type assertions ask for the method in the method set of \<open>*t\<close>. The methods are
  the caller's: \<open>String()\<close> returns the text the value carries as \<open>mString\<close>, and
  \<open>JSONEncode\<close> appends the text it carries as \<open>mJSONEncode\<close>.
\<close>

definition stringerConv :: "go_type \<Rightarrow> closure" where
  "stringerConv t = (\<lambda>v w.
     if ''String'' \<in> set (methodSet (TPtr t)) then Inr (Write w (mString (methodsOf v)))
     else Inr w)"

definition encoderConv :: "go_type \<Rightarrow> closure" where
  "encoderConv t = (\<lambda>v w.
     if ''JSONEncode'' \<in> set (methodSet (TPtr t)) then Inr (Write w (mJSONEncode (methodsOf v)))
     else Inr (Write w null_bytes))"

definition rawConv :: closure where
  "rawConv = (\<lambda>v w.
     let s = asBytes v
     in if length s = 0 then Inr (Write w null_bytes) else Inr (Write w s))"

text \<open>
  The body of the loop of \<open>NewStructEncoderWithConfig\<close> for an included field, after
  its key has been written: the \<open>switch\<close> on the options, the two tests for
  \<open>time.Time\<close>, and the \<open>switch\<close> on the kind. \<open>MethodByName\<close> panics on the nil value
  of an interface type that has the method.
\<close>

definition fieldValue :: "StructEncoder \<Rightarrow> field \<Rightarrow> nat \<Rightarrow> string
    \<Rightarrow> error + SliceEncoder \<Rightarrow> error + StructEncoder \<Rightarrow> error + MapEncoder
    \<Rightarrow> error + StructEncoder" where
  \<open>fieldValue e f off opts newSlice newStruct newMap =
     (let isPtr = (kindOf (Type f) = KPtr);
          t = pointee (Type f)
      in
      if Contains opts ''stringer'' \<and> ''String'' \<in> set (methodSet (Type f)) then
        (if kindOf (Type f) = KInterface then Inl (Panic ''reflect: Method on nil interface value'')
         else
           let e1 = chunk e ''"'';
               e2 = (if isPtr then ptrval off e1 (stringerConv t) else val off e1 (stringerConv t))
           in Inr (chunk e2 ''"''))
      else if Contains opts ''encoder'' then
        Inr (if isPtr then ptrval off e (encoderConv t) else val off e (encoderConv t))
      else if Contains opts ''raw'' then
        Inr (if isPtr then ptrval off e rawConv else val off e rawConv)
      else if Type f = TTime then Inr (val off e (conv ptrTimeToBuf))
      else if isPtr \<and> ElemOf (Type f) = Some TTime then Inr (ptrval off e (conv ptrTimeToBuf))
      else if isPtr then valueInst e f off (kindOf t) (ptrval off) newSlice newStruct newMap
      else valueInst e f off (kindOf (Type f)) (val off) newSlice newStruct newMap)\<close>

section \<open>The constructors\<close>

text \<open>
  \<open>NewStructEncoderWithConfig\<close>, \<open>NewSliceEncoderWithConfig\<close> and
  \<open>NewMapEncoderWithConfig\<close> take the type of the value they are given
  (\<open>reflect.TypeOf(t)\<close>) and return the encoder, or the panic construction ends with.
  \<open>structFields\<close> is the loop over the fields, with the encoder under construction, the
  count \<open>emit\<close> of the fields emitted so far and the index of the next field.
\<close>

definition emptyStructEncoder :: StructEncoder where
  "emptyStructEncoder = \<lparr>instructions = [], cb = \<lparr>Bytes = []\<rparr>, cpos = 0\<rparr>"

lemma size_underlying_struct [termination_simp]:
  "underlying t = TStruct fs \<Longrightarrow> size_list size fs < size t"
  using size_underlying [of t] by simp

lemma size_underlying_map [termination_simp]:
  "underlying t = TMap kt et \<Longrightarrow> size (pointee et) < size t"
  using size_underlying [of t] size_pointee [of et] by simp

lemma size_ElemOf_pointee [termination_simp]:
  "ElemOf t = Some el \<Longrightarrow> size (pointee el) < size t"
  using size_ElemOf [of t el] size_pointee [of el] by simp

lemma size_Type [termination_simp]: "size (Type f) < size f"
  by (cases f) simp

lemma size_pointee_Type [termination_simp]: "size (pointee (Type f)) < size f"
  using size_Type [of f] size_pointee [of "Type f"] by simp

function (sequential) NewStructEncoderWithConfig ::
    "(unsafeke list \<Rightarrow> unsafeke list) \<Rightarrow> go_type \<Rightarrow> Config \<Rightarrow> error + StructEncoder"
  and structFields ::
    "(unsafeke list \<Rightarrow> unsafeke list) \<Rightarrow> Config \<Rightarrow> StructEncoder \<Rightarrow> nat \<Rightarrow> nat \<Rightarrow> field list
      \<Rightarrow> error + StructEncoder"
  and NewSliceEncoderWithConfig ::
    "(unsafeke list \<Rightarrow> unsafeke list) \<Rightarrow> go_type \<Rightarrow> Config \<Rightarrow> error + SliceEncoder"
  and NewMapEncoderWithConfig ::
    "(unsafeke list \<Rightarrow> unsafeke list) \<Rightarrow> go_type \<Rightarrow> Config \<Rightarrow> error + MapEncoder"
where
  "NewStructEncoderWithConfig srt t cfg =
     (case underlying t of
        TStruct fs \<Rightarrow>
          (case structFields srt cfg (chunk emptyStructEncoder ''{'') 0 0 fs of
             Inl x \<Rightarrow> Inl x
           | Inr e \<Rightarrow> Inr (flunk (chunk e ''}'')))
      | TTime \<Rightarrow> Inr (flunk (chunk (chunk emptyStructEncoder ''{'') ''}''))
      | _ \<Rightarrow> Inl (Panic ''reflect: NumField of non-struct type''))"
| "structFields srt cfg e emit i [] = Inr e"
| "structFields srt cfg e emit i (f # fs) =
     (if fst (parseTag (Tag f)) = [] then structFields srt cfg e emit (Suc i) fs
      else
        (case fieldValue
                (chunk (if emit + 1 > 1 then chunk e '','' else e)
                   ([CHR 0x22] @ fst (parseTag (Tag f)) @ [CHR 0x22, CHR '':'']))
                f i (snd (parseTag (Tag f)))
                (NewSliceEncoderWithConfig srt (Type f) cfg)
                (NewStructEncoderWithConfig srt (pointee (Type f)) cfg)
                (NewMapEncoderWithConfig srt (pointee (Type f)) cfg) of
           Inl x \<Rightarrow> Inl x
         | Inr e3 \<Rightarrow> structFields srt cfg e3 (emit + 1) (Suc i) fs))"
| "NewSliceEncoderWithConfig srt t cfg =
     (case ElemOf t of
        None \<Rightarrow> Inl (Panic ''reflect: Elem of invalid type'')
      | Some el \<Rightarrow>
          if el = TTime then Inr timeInstr
          else if kindOf el = KSlice then
            (case NewSliceEncoderWithConfig srt el cfg of
               Inl x \<Rightarrow> Inl x | Inr enc \<Rightarrow> Inr (sliceInstr enc))
          else if kindOf el = KStruct then
            (case NewStructEncoderWithConfig srt el cfg of
               Inl x \<Rightarrow> Inl x | Inr enc \<Rightarrow> Inr (structInstr enc))
          else if kindOf el = KMap then
            (case NewMapEncoderWithConfig srt el cfg of
               Inl x \<Rightarrow> Inl x | Inr enc \<Rightarrow> Inr (mapInstr enc))
          else if kindOf el = KString then Inr (stringInstr (conv ptrStringToBuf))
          else if kindOf el = KPtr then
            (if pointee el = TTime then Inr ptrTimeInstr
             else if kindOf (pointee el) = KSlice then ptrSliceInstr
             else if kindOf (pointee el) = KStruct then
               (case NewStructEncoderWithConfig srt (pointee el) cfg of
                  Inl x \<Rightarrow> Inl x | Inr enc \<Rightarrow> Inr (ptrStrctInstr enc))
             else if kindOf (pointee el) = KMap then
               (case NewMapEncoderWithConfig srt (pointee el) cfg of
                  Inl x \<Rightarrow> Inl x | Inr enc \<Rightarrow> Inr (ptrMapInstr enc))
             else if kindOf (pointee el) = KString then Inr (ptrStringInstr (conv ptrStringToBuf))
             else Inr (ptrOtherInstr (kindOf (pointee el))))
          else Inr (otherInstr (kindOf el)))"
| "NewMapEncoderWithConfig srt t cfg =
     (case underlying t of
        TMap kt et \<Rightarrow>
          if kindOf kt = KString \<and> kindOf et = KString then
            (if SortMapKeys cfg then Inr \<lparr>map_instruction = sortStrStrInstr srt\<rparr>
             else Inr \<lparr>map_instruction = strStrInstr\<rparr>)
          else
            (case elemConv et
                    (NewSliceEncoderWithConfig srt (pointee et) cfg)
                    (NewStructEncoderWithConfig srt (pointee et) cfg)
                    (NewMapEncoderWithConfig srt (pointee et) cfg) of
               Inl x \<Rightarrow> Inl x
             | Inr econv \<Rightarrow>
                 (case keyConv kt of
                    Inl x \<Rightarrow> Inl x
                  | Inr kconv \<Rightarrow>
                      if SortMapKeys cfg then Inr \<lparr>map_instruction = sortInstr srt kconv econv\<rparr>
                      else Inr \<lparr>map_instruction = instr kconv econv\<rparr>))
      | _ \<Rightarrow> Inl (Panic ''reflect: Key of non-map type''))"
  by pat_completeness auto
termination
  apply (relation "measure (\<lambda>x. case x of
       Inl (Inl (srt, t, cfg)) \<Rightarrow> size t
     | Inl (Inr (srt, cfg, e, emit, i, fs)) \<Rightarrow> size_list size fs
     | Inr (Inl (srt, t, cfg)) \<Rightarrow> size t
     | Inr (Inr (srt, t, cfg)) \<Rightarrow> size t)")
  apply (auto simp: size_underlying_struct size_underlying_map size_ElemOf size_ElemOf_pointee
      intro: less_SucI trans_less_add1 size_Type size_pointee_Type)
  done

declare NewStructEncoderWithConfig.simps [simp del] NewSliceEncoderWithConfig.simps [simp del]
  NewMapEncoderWithConfig.simps [simp del]

section \<open>Evaluation rules and basic facts\<close>

lemmas buffer_defs = Write_def WriteByte_def null_bytes_def emptyObj_def btrue_def bfalse_def

lemmas reader_defs = asBool_def asInt_def asFloatText_def asBytes_def asTimeText_def elems_def
  fieldAt_def deref_def mapOf_def methodsOf_def elemAt_def

lemmas conv_defs = conv_def ptrBoolToBuf_def ptrIntToBuf_def ptrUintToBuf_def ptrFloatToBuf_def
  ptrStringToBuf_def ptrTimeToBuf_def thenE_def AppendInt_def digit_def

lemmas tag_defs = parseTag_def beforeComma_def afterComma_def Contains.simps

lemmas struct_defs = chunk_def flunk_def val_def ptrval_def ptrstringval_def valueInst_def
  fieldValue_def stringerConv_def encoderConv_def rawConv_def emptyStructEncoder_def
  StructEncoder_Marshal_def pointee_def ElemOf_def unsupportedKind_def timeMethods_def

lemma kindOf_underlying [simp]: "kindOf (underlying t) = kindOf t"
  by (induction t rule: underlying.induct) simp_all

lemma kindOfLeaf_not_composite [simp]:
  "kindOfLeaf l \<noteq> KPtr" "kindOfLeaf l \<noteq> KStruct" "kindOfLeaf l \<noteq> KSlice"
  "kindOfLeaf l \<noteq> KMap" "kindOfLeaf l \<noteq> KArray"
  by (cases l; simp)+




lemma NewStructEncoderWithConfig_struct:
  "underlying t = TStruct fs \<Longrightarrow>
   NewStructEncoderWithConfig srt t cfg =
     (case structFields srt cfg (chunk emptyStructEncoder ''{'') 0 0 fs of
        Inl x \<Rightarrow> Inl x
      | Inr e \<Rightarrow> Inr (flunk (chunk e ''}'')))"
  by (simp add: NewStructEncoderWithConfig.simps)



section \<open>Runtime failure of a slice encoder\<close>

text \<open>
  C5. Once an encoder is constructed, Marshal cannot fail: every failure for an unsupported
  field, key or element kind is raised at construction. The slice encoder does not do so:
  for an element kind that \<open>typeconv\<close> has no entry for (here a channel), \<open>otherInstr\<close>
  returns without assigning the instruction and without a panic, construction succeeds, and
  \<open>Marshal\<close> then calls the nil instruction, which panics, for every value and buffer.
\<close>

theorem slice_of_unsupported_kind_fails_at_Marshal:
  "NewSliceEncoderWithConfig srt (TSlice (TLeaf LChan)) cfg = Inr \<lparr>instruction = None\<rparr>
   \<and> SliceEncoder_Marshal \<lparr>instruction = None\<rparr> v w = Inl nilCall"
  by (simp add: NewSliceEncoderWithConfig.simps ElemOf_def otherInstr_def SliceEncoder_Marshal_def)

section \<open>Absent references\<close>

text \<open>
  C2. A nil pointer field or element renders as the literal \<open>null\<close>, a present sequence
  or mapping as \<open>[]\<close> or \<open>{}\<close>. For a pointer field with the \<open>stringer\<close> option
  whose type has a \<open>String\<close> method (here \<open>*time.Time\<close>) the quotes are static
  chunks around the \<open>ptrval\<close> instruction, so a nil pointer renders as the JSON string
  \<open>"null"\<close>; and for a nil pointer to an array only the opening bracket is written.
\<close>

theorem nil_pointer_with_stringer_is_quoted:
  \<open>(case NewStructEncoderWithConfig srt (TStruct [Field ''P'' [] ''p,stringer'' (TPtr TTime)]) cfg of
      Inl x \<Rightarrow> Inl x
    | Inr enc \<Rightarrow> StructEncoder_Marshal enc (VStruct [VPtr None]) \<lparr>Bytes = []\<rparr>)
     = Inr \<lparr>Bytes = ''{"p":"null"}''\<rparr>
   \<and> (case NewStructEncoderWithConfig srt (TStruct [Field ''A'' [] ''a'' (TPtr (TArray 2 (TLeaf LInt)))]) cfg of
      Inl x \<Rightarrow> Inl x
    | Inr enc \<Rightarrow> StructEncoder_Marshal enc (VStruct [VPtr None]) \<lparr>Bytes = []\<rparr>)
     = Inr \<lparr>Bytes = ''{"a":[}''\<rparr>\<close>
  by (simp add: NewStructEncoderWithConfig.simps buffer_defs reader_defs conv_defs tag_defs
      struct_defs Let_def)

section \<open>Unsupported field kinds\<close>








section \<open>Primitive rendering of booleans\<close>

text \<open>
  C6. The boolean conversion appends exactly \<open>true\<close> for a true value and exactly
  \<open>false\<close> for a false one. The code misses the return after writing \<open>true\<close>:
  for a true value it appends \<open>truefalse\<close>.
\<close>

theorem ptrBoolToBuf_true_appends_truefalse:
  "Bytes (ptrBoolToBuf (VBool True) \<lparr>Bytes = []\<rparr>) = ''truefalse''
   \<and> Bytes (ptrBoolToBuf (VBool False) \<lparr>Bytes = []\<rparr>) = ''false''"
  by (simp add: ptrBoolToBuf_def asBool_def Write_def btrue_def bfalse_def)

section \<open>The object a struct encoder writes\<close>

text \<open>
  Closures compose in sequence (\<open>seqC\<close>); \<open>writeC s\<close> appends the static text
  \<open>s\<close>. The \<open>effect\<close> of an encoder under construction is what its instructions
  write, followed by the static text that is chunked but not yet flushed (\<open>pending\<close>).
\<close>

definition seqC :: "closure \<Rightarrow> closure \<Rightarrow> closure" where
  "seqC a b = (\<lambda>v w. thenE (a v w) (b v))"

definition writeC :: "string \<Rightarrow> closure" where
  "writeC s = (\<lambda>v w. Inr (Write w s))"

definition pending :: "StructEncoder \<Rightarrow> string" where
  "pending e = drop (cpos e) (Bytes (cb e))"

definition effect :: "StructEncoder \<Rightarrow> closure" where
  "effect e = seqC (runInstructions (instructions e)) (writeC (pending e))"

definition wfE :: "StructEncoder \<Rightarrow> bool" where
  "wfE e = (cpos e \<le> length (Bytes (cb e)))"

lemma thenE_Inr [simp]: "thenE (Inr x) f = f x"
  by (simp add: thenE_def)

lemma thenE_Inl [simp]: "thenE (Inl x) f = Inl x"
  by (simp add: thenE_def)

lemma thenE_return [simp]: "thenE r Inr = r"
  by (cases r) simp_all

lemma thenE_assoc: "thenE (thenE r f) g = thenE r (\<lambda>x. thenE (f x) g)"
  by (cases r) simp_all

lemma Write_Nil [simp]: "Write w [] = w"
  by (simp add: Write_def)

lemma Write_Write [simp]: "Write (Write w a) b = Write w (a @ b)"
  by (simp add: Write_def)

lemma seqC_assoc: "seqC (seqC a b) c = seqC a (seqC b c)"
  by (simp add: seqC_def thenE_assoc)

lemma seqC_writeC_Nil [simp]: "seqC a (writeC []) = a" "seqC (writeC []) a = a"
  by (simp_all add: seqC_def writeC_def)

lemma seqC_writeC_writeC [simp]: "seqC (writeC a) (writeC b) = writeC (a @ b)"
  by (simp add: seqC_def writeC_def)

lemma seqC_writeC_writeC' [simp]: "seqC (writeC a) (seqC (writeC b) c) = seqC (writeC (a @ b)) c"
  by (simp add: seqC_def writeC_def)

lemma runInstructions_append_at:
  "runInstructions (xs @ ys) v w = thenE (runInstructions xs v w) (runInstructions ys v)"
proof (induction xs arbitrary: w)
  case Nil
  show ?case by simp
next
  case (Cons a xs)
  show ?case by (cases "a v w") (simp_all add: Cons.IH)
qed

lemma runInstructions_append:
  "runInstructions (xs @ ys) = seqC (runInstructions xs) (runInstructions ys)"
  by (intro ext) (simp add: seqC_def runInstructions_append_at)

lemma runInstructions_Nil_fun [simp]: "runInstructions [] v = Inr"
  by (intro ext) simp

lemma runInstructions_single [simp]: "runInstructions [i] = i"
  by (intro ext) simp

lemma effect_empty [simp]: "effect emptyStructEncoder = writeC []"
  by (simp add: effect_def emptyStructEncoder_def pending_def seqC_def writeC_def fun_eq_iff)

lemma wfE_empty [simp]: "wfE emptyStructEncoder"
  by (simp add: wfE_def emptyStructEncoder_def)

text \<open>
  Every step of the construction extends the effect of the encoder it is applied to by a
  closure of its own (\<open>hom\<close>), whatever was compiled before: chunking and flushing are
  invisible in the output.
\<close>

definition hom :: "(StructEncoder \<Rightarrow> StructEncoder) \<Rightarrow> closure \<Rightarrow> bool" where
  "hom g x = (\<forall>e. wfE e \<longrightarrow> wfE (g e) \<and> effect (g e) = seqC (effect e) x)"

lemma hom_chunk: "hom (\<lambda>e. chunk e b) (writeC b)"
  by (simp add: hom_def wfE_def chunk_def effect_def pending_def Write_def seqC_def writeC_def thenE_assoc)

lemma writeC_fold: "(\<lambda>_ w. Inr (Write w bs)) = writeC bs"
  by (simp add: writeC_def)

lemma hom_flunk: "hom flunk (writeC [])"
  by (auto simp: hom_def wfE_def flunk_def effect_def pending_def Let_def runInstructions_append
      seqC_assoc writeC_fold)

lemma hom_id: "hom (\<lambda>e. e) (writeC [])"
  by (simp add: hom_def)

lemma hom_comp: "hom f x \<Longrightarrow> hom g y \<Longrightarrow> hom (\<lambda>e. g (f e)) (seqC x y)"
  by (simp add: hom_def seqC_assoc)

lemma hom_instr: "hom (\<lambda>e. let e1 = flunk e in e1\<lparr>instructions := instructions e1 @ [i]\<rparr>) i"
  by (auto simp: hom_def wfE_def flunk_def effect_def pending_def Let_def runInstructions_append
      seqC_assoc writeC_fold)

lemma hom_val: "hom (\<lambda>e. val off e cv) (\<lambda>v w. cv (fieldAt v off) w)"
  unfolding val_def by (rule hom_instr)

lemma hom_ptrval: "\<exists>x. hom (\<lambda>e. ptrval off e cv) x"
  unfolding ptrval_def by (rule exI, rule hom_instr)

lemma hom_ptrstringval: "\<exists>x. hom (\<lambda>e. ptrstringval off e cv) x"
  unfolding ptrstringval_def by (rule exI, rule hom_instr)


definition homx :: "(StructEncoder \<Rightarrow> StructEncoder) \<Rightarrow> bool" where
  "homx g = (\<exists>x. hom g x)"

lemma homx_after: "homx g \<Longrightarrow> homx f \<Longrightarrow> homx (\<lambda>e. g (f e))"
  unfolding homx_def using hom_comp by blast

lemma homx_id: "homx (\<lambda>e. e)"
  unfolding homx_def using hom_id by blast

lemma homx_chunk: "homx f \<Longrightarrow> homx (\<lambda>e. chunk (f e) b)"
  by (rule homx_after [where g = "\<lambda>e. chunk e b"]) (auto simp: homx_def intro: hom_chunk)

lemma homx_flunk: "homx f \<Longrightarrow> homx (\<lambda>e. flunk (f e))"
  by (rule homx_after [where g = flunk]) (auto simp: homx_def intro: hom_flunk)

lemma homx_instr:
  "homx f \<Longrightarrow> homx (\<lambda>e. (flunk (f e))\<lparr>instructions := instructions (flunk (f e)) @ [i]\<rparr>)"
  using homx_after [where g = "\<lambda>e. let e1 = flunk e in e1\<lparr>instructions := instructions e1 @ [i]\<rparr>" and f = f]
    hom_instr [of i]
  by (auto simp: homx_def Let_def)

lemma homx_val: "homx f \<Longrightarrow> homx (\<lambda>e. val off (f e) cv)"
  by (rule homx_after [where g = "\<lambda>e. val off e cv"]) (auto simp: homx_def intro: hom_val)

lemma homx_ptrval: "homx f \<Longrightarrow> homx (\<lambda>e. ptrval off (f e) cv)"
  by (rule homx_after [where g = "\<lambda>e. ptrval off e cv"]) (auto simp: homx_def intro: hom_ptrval)

lemma homx_ptrstringval: "homx f \<Longrightarrow> homx (\<lambda>e. ptrstringval off (f e) cv)"
  by (rule homx_after [where g = "\<lambda>e. ptrstringval off e cv"])
    (auto simp: homx_def intro: hom_ptrstringval)

lemma homx_arrayLoop: "homx f \<Longrightarrow> homx (\<lambda>e. arrayLoop off cv j r (f e))"
proof (induction r arbitrary: j f)
  case 0
  then show ?case by simp
next
  case (Suc r)
  have "homx (\<lambda>e. (flunk (if 0 < j then chunk (f e) '', '' else f e))
          \<lparr>instructions := instructions (flunk (if 0 < j then chunk (f e) '', '' else f e))
             @ [\<lambda>v w. cv (elemAt (fieldAt v off) j) w]\<rparr>)"
    by (rule homx_instr) (cases "0 < j"; simp add: Suc.prems homx_chunk)
  from Suc.IH [OF this] show ?case by (simp add: Let_def)
qed

definition homE :: "(StructEncoder \<Rightarrow> error + StructEncoder) \<Rightarrow> bool" where
  "homE op = ((\<exists>x. \<forall>e. op e = Inl x) \<or> (\<exists>g. homx g \<and> (\<forall>e. op e = Inr (g e))))"

lemma homE_Inl: "homE (\<lambda>e. Inl x)"
  by (simp add: homE_def)

lemma homE_Inr: "homx g \<Longrightarrow> homE (\<lambda>e. Inr (g e))"
  by (auto simp: homE_def)

lemma homE_if: "(c \<Longrightarrow> homE a) \<Longrightarrow> (\<not> c \<Longrightarrow> homE b) \<Longrightarrow> homE (\<lambda>e. if c then a e else b e)"
  by (cases c) simp_all

lemma homE_option:
  "(x = None \<Longrightarrow> homE a) \<Longrightarrow> (\<And>y. x = Some y \<Longrightarrow> homE (b y))
   \<Longrightarrow> homE (\<lambda>e. case x of None \<Rightarrow> a e | Some y \<Rightarrow> b y e)"
  by (cases x) simp_all

lemma homE_sum:
  "(\<And>y. x = Inl y \<Longrightarrow> homE (a y)) \<Longrightarrow> (\<And>y. x = Inr y \<Longrightarrow> homE (b y))
   \<Longrightarrow> homE (\<lambda>e. case x of Inl y \<Rightarrow> a y e | Inr y \<Rightarrow> b y e)"
  by (cases x) simp_all

lemma homx_if: "(c \<Longrightarrow> homx a) \<Longrightarrow> (\<not> c \<Longrightarrow> homx b) \<Longrightarrow> homx (\<lambda>e. if c then a e else b e)"
  by (cases c) simp_all

lemmas homx_rules = homx_if homx_id homx_chunk homx_flunk homx_instr homx_val homx_ptrval
  homx_ptrstringval homx_arrayLoop

lemma homE_valueInst:
  assumes ins: "\<And>g cv. homx g \<Longrightarrow> homx (\<lambda>e. ins (g e) cv)"
  shows "homE (\<lambda>e. valueInst e f off k ins ns nt nm)"
  unfolding valueInst_def Let_def
  apply (intro homE_if homE_option homE_sum homE_Inl)
  apply (auto intro!: homE_Inr homx_rules ins homE_Inl)
  subgoal for el cv
    by (cases "underlying (Type f)") (auto intro!: homE_Inr homx_rules homE_Inl)
  done

lemma homE_fieldValue: "homE (\<lambda>e. fieldValue e f off opts ns nt nm)"
  unfolding fieldValue_def Let_def
  by (intro homE_if homE_Inl homE_valueInst homE_Inr homx_rules)

lemma homE_decomp:
  assumes "homE op" and "wfE e"
  shows "(case op e of
            Inl a \<Rightarrow> op emptyStructEncoder = Inl a
          | Inr e1 \<Rightarrow> wfE e1 \<and>
              (\<exists>e0. op emptyStructEncoder = Inr e0 \<and> effect e1 = seqC (effect e) (effect e0)))"
  using assms
  by (auto simp: homE_def homx_def hom_def split: sum.splits)

text \<open>
  \<open>fieldClosure\<close> is what the instructions compiled for the value of one field write:
  the effect of \<open>fieldValue\<close> on the empty encoder. \<open>members\<close> lists, for the fields
  from index \<open>i\<close> on, the tag name and the value closure of every field that has a tag
  name. \<open>writeObject\<close> is the layout of a JSON object: an opening brace, the members
  as \<open>"name":value\<close> separated by commas, a closing brace.
\<close>

definition fieldClosure :: "field \<Rightarrow> nat \<Rightarrow> string
    \<Rightarrow> error + SliceEncoder \<Rightarrow> error + StructEncoder \<Rightarrow> error + MapEncoder \<Rightarrow> closure" where
  "fieldClosure f off opts newSlice newStruct newMap =
     (case fieldValue emptyStructEncoder f off opts newSlice newStruct newMap of
        Inl x \<Rightarrow> (\<lambda>v w. Inl x)
      | Inr e \<Rightarrow> effect e)"

fun members :: "(unsafeke list \<Rightarrow> unsafeke list) \<Rightarrow> Config \<Rightarrow> nat \<Rightarrow> field list
    \<Rightarrow> (string \<times> closure) list" where
  "members srt cfg i [] = []"
| "members srt cfg i (f # fs) =
     (if fst (parseTag (Tag f)) = [] then members srt cfg (Suc i) fs
      else (fst (parseTag (Tag f)),
            fieldClosure f i (snd (parseTag (Tag f)))
              (NewSliceEncoderWithConfig srt (Type f) cfg)
              (NewStructEncoderWithConfig srt (pointee (Type f)) cfg)
              (NewMapEncoderWithConfig srt (pointee (Type f)) cfg))
           # members srt cfg (Suc i) fs)"

fun writeMembers :: "bool \<Rightarrow> (string \<times> closure) list \<Rightarrow> closure" where
  "writeMembers first [] = writeC []"
| \<open>writeMembers first ((name, c) # ms) =
     seqC (writeC ((if first then [] else '','') @ ''"'' @ name @ ''":''))
       (seqC c (writeMembers False ms))\<close>

definition writeObject :: "(string \<times> closure) list \<Rightarrow> closure" where
  "writeObject ms = seqC (writeC ''{'') (seqC (writeMembers True ms) (writeC ''}''))"

lemma fieldValue_decomp:
  assumes "wfE e" and "fieldValue e f off opts ns nt nm = Inr e1"
  shows "wfE e1 \<and> effect e1 = seqC (effect e) (fieldClosure f off opts ns nt nm)"
  using homE_decomp [OF homE_fieldValue assms(1), of f off opts ns nt nm] assms(2)
  by (auto simp: fieldClosure_def)

lemma wfE_chunk: "wfE e \<Longrightarrow> wfE (chunk e b)"
  using hom_chunk by (simp add: hom_def)

lemma effect_chunk: "wfE e \<Longrightarrow> effect (chunk e b) = seqC (effect e) (writeC b)"
  using hom_chunk by (simp add: hom_def)

lemma structFields_effect:
  "wfE e \<Longrightarrow> structFields srt cfg e emit i fs = Inr e1 \<Longrightarrow>
   wfE e1 \<and> effect e1 = seqC (effect e) (writeMembers (emit = 0) (members srt cfg i fs))"
proof (induction fs arbitrary: e emit i)
  case Nil
  then show ?case by simp
next
  case (Cons f fs)
  show ?case
  proof (cases "fst (parseTag (Tag f)) = []")
    case True
    with Cons.prems Cons.IH [of e emit "Suc i"] show ?thesis by simp
  next
    case False
    let ?e2 = "chunk (if emit + 1 > 1 then chunk e '','' else e)
                 ([CHR 0x22] @ fst (parseTag (Tag f)) @ [CHR 0x22, CHR '':''])"
    from False Cons.prems(2) obtain e3 where
      fv: "fieldValue ?e2 f i (snd (parseTag (Tag f)))
             (NewSliceEncoderWithConfig srt (Type f) cfg)
             (NewStructEncoderWithConfig srt (pointee (Type f)) cfg)
             (NewMapEncoderWithConfig srt (pointee (Type f)) cfg) = Inr e3"
      and rest: "structFields srt cfg e3 (emit + 1) (Suc i) fs = Inr e1"
      by (auto split: sum.splits)
    have w2: "wfE ?e2" using Cons.prems(1) by (simp add: wfE_chunk)
    have eff2: "effect ?e2 = seqC (effect e)
        (writeC ((if emit = 0 then [] else '','') @ [CHR 0x22] @ fst (parseTag (Tag f)) @ [CHR 0x22, CHR '':'']))"
      using Cons.prems(1) by (simp add: effect_chunk wfE_chunk seqC_assoc)
    from fieldValue_decomp [OF w2 fv] Cons.IH [OF _ rest] eff2 False
    show ?thesis by (simp add: seqC_assoc)
  qed
qed

lemma effect_flunk: "wfE e \<Longrightarrow> effect (flunk e) = effect e"
  using hom_flunk by (simp add: hom_def)

lemma pending_flunk [simp]: "pending (flunk e) = []"
  by (simp add: flunk_def pending_def Let_def)

lemma Marshal_effect: "pending e = [] \<Longrightarrow> StructEncoder_Marshal e = effect e"
  by (simp add: StructEncoder_Marshal_def effect_def fun_eq_iff seqC_def writeC_def)

lemma NewStructEncoderWithConfig_Marshal:
  assumes "NewStructEncoderWithConfig srt t cfg = Inr enc" and "underlying t = TStruct fs"
  shows "StructEncoder_Marshal enc = writeObject (members srt cfg 0 fs)"
proof -
  from assms obtain e1 where
    sf: "structFields srt cfg (chunk emptyStructEncoder ''{'') 0 0 fs = Inr e1"
    and enc: "enc = flunk (chunk e1 ''}'')"
    by (auto simp: NewStructEncoderWithConfig_struct split: sum.splits)
  have w0: "wfE (chunk emptyStructEncoder ''{'')" by (simp add: wfE_chunk)
  from structFields_effect [OF w0 sf]
  have w1: "wfE e1" and e1: "effect e1 = seqC (writeC ''{'') (writeMembers True (members srt cfg 0 fs))"
    by (simp_all add: effect_chunk)
  show ?thesis
    unfolding enc by (simp add: Marshal_effect effect_flunk effect_chunk wfE_chunk w1 e1 writeObject_def seqC_assoc)
qed

lemma members_append:
  "members srt cfg i (pre @ post) = members srt cfg i pre @ members srt cfg (i + length pre) post"
  by (induction pre arbitrary: i) simp_all

lemma members_names:
  "map fst (members srt cfg i fs)
     = map (\<lambda>f. fst (parseTag (Tag f))) (filter (\<lambda>f. fst (parseTag (Tag f)) \<noteq> []) fs)"
  by (induction fs arbitrary: i) simp_all

lemmas closure_defs = seqC_def writeC_def effect_def pending_def fieldClosure_def writeObject_def

text \<open>
  C1. Marshal does not write a JSON object for every struct type the compiler accepts. A
  field whose type is a pointer to a pointer is accepted and its key is written, but
  \<open>valueInst\<close> is called with the kind \<open>reflect.Ptr\<close> of the pointee, has no case for it
  and adds no instruction for the value, where it panics for every other kind it does not
  render: for every value of \<open>struct{ P **int `json:"p"` }\<close>, nil or not, Marshal writes
  \<open>{"p":}\<close>, a member with no value.
\<close>

theorem pointer_to_pointer_field_has_no_value:
  \<open>case NewStructEncoderWithConfig srt
          (TStruct [Field ''P'' [] ''p'' (TPtr (TPtr (TLeaf LInt)))]) cfg of
     Inl x \<Rightarrow> False
   | Inr enc \<Rightarrow> (\<forall>v. StructEncoder_Marshal enc v \<lparr>Bytes = []\<rparr> = Inr \<lparr>Bytes = ''{"p":}''\<rparr>)\<close>
  by (simp add: NewStructEncoderWithConfig.simps tag_defs struct_defs buffer_defs Let_def)

section \<open>Options and tag names of struct fields\<close>

lemma NewStructEncoderWithConfig_Marshal_at:
  assumes "NewStructEncoderWithConfig srt t cfg = Inr enc"
    and "underlying t = TStruct (pre @ f # post)"
  shows "StructEncoder_Marshal enc =
     writeObject (members srt cfg 0 pre @ members srt cfg (length pre) [f]
        @ members srt cfg (Suc (length pre)) post)"
  using NewStructEncoderWithConfig_Marshal [OF assms]
    members_append [of srt cfg 0 pre "f # post"]
    members_append [of srt cfg "length pre" "[f]" post]
  by simp

text \<open>
  A field that carries the \<open>raw\<close> option and, the options being exclusive, neither of
  the two the struct compiler looks for first. Its content is the byte or text content of
  the field, or of the pointee of a pointer field (none when the pointer is nil).
\<close>

definition rawField :: "field \<Rightarrow> bool" where
  "rawField f =
     (fst (parseTag (Tag f)) \<noteq> []
      \<and> Contains (snd (parseTag (Tag f))) ''raw''
      \<and> \<not> Contains (snd (parseTag (Tag f))) ''stringer''
      \<and> \<not> Contains (snd (parseTag (Tag f))) ''encoder'')"

definition rawContent :: "field \<Rightarrow> nat \<Rightarrow> go_value \<Rightarrow> string option" where
  "rawContent f off v =
     (if kindOf (Type f) = KPtr then map_option asBytes (deref (fieldAt v off))
      else Some (asBytes (fieldAt v off)))"

definition rawMember :: "field \<Rightarrow> nat \<Rightarrow> closure" where
  "rawMember f off = (\<lambda>v w.
     case rawContent f off v of
       None \<Rightarrow> Inr (Write w ''null'')
     | Some s \<Rightarrow> if s = [] then Inr (Write w ''null'') else Inr (Write w s))"

lemma effect_val_empty: "effect (val off emptyStructEncoder cv) = (\<lambda>v w. cv (fieldAt v off) w)"
  using hom_val [of off cv] by (simp add: hom_def)

lemma effect_ptrval_empty:
  "effect (ptrval off emptyStructEncoder cv) = (\<lambda>v w.
     case deref (fieldAt v off) of None \<Rightarrow> Inr (Write w null_bytes) | Some p \<Rightarrow> cv p w)"
  unfolding ptrval_def using hom_instr by (simp add: hom_def)

lemma fieldClosure_raw:
  assumes "rawField f"
  shows "fieldClosure f off (snd (parseTag (Tag f))) ns nt nm = rawMember f off"
  using assms
  by (auto simp: rawField_def fieldClosure_def fieldValue_def Let_def effect_val_empty
      effect_ptrval_empty rawMember_def rawContent_def rawConv_def null_bytes_def fun_eq_iff
      split: option.splits)

text \<open>
  C8. For every field carrying the \<open>raw\<close> option, Marshal writes the field's content
  unquoted and unescaped, and \<open>null\<close> when the content has zero length: in the object
  the struct encoder writes, the member of such a field is its tag name followed by the
  content as it is, or by \<open>null\<close> when the content is empty (or the pointer is nil).
\<close>

theorem raw_field_written_verbatim:
  assumes "rawField f"
    and "NewStructEncoderWithConfig srt t cfg = Inr enc"
    and "underlying t = TStruct (pre @ f # post)"
  shows "StructEncoder_Marshal enc v w =
     writeObject (members srt cfg 0 pre
        @ (fst (parseTag (Tag f)), rawMember f (length pre))
        # members srt cfg (Suc (length pre)) post) v w"
  using assms(1) NewStructEncoderWithConfig_Marshal_at [OF assms(2,3)] fieldClosure_raw [OF assms(1)]
  by (simp add: rawField_def)

theorem raw_field_written_verbatim_witness:
  \<open>rawField (Field ''Raw2'' [] ''c,raw'' (TSlice (TLeaf LUint8)))
   \<and> (\<exists>enc. NewStructEncoderWithConfig (sort_key fst)
         (TStruct [Field ''Raw'' [] ''raw,raw'' (TSlice (TLeaf LUint8)), Field ''Raw2'' [] ''c,raw'' (TSlice (TLeaf LUint8))])
         DefaultConfig = Inr enc
       \<and> StructEncoder_Marshal enc (VStruct [VStr ''{"mapKey1":1}'', VStr []]) \<lparr>Bytes = []\<rparr>
           = Inr \<lparr>Bytes = ''{"raw":{"mapKey1":1},"c":null}''\<rparr>)\<close>
proof -
  let ?f = "Field ''Raw2'' [] ''c,raw'' (TSlice (TLeaf LUint8))"
  let ?t = "TStruct [Field ''Raw'' [] ''raw,raw'' (TSlice (TLeaf LUint8)), ?f]"
  have r: "rawField ?f"
    by (simp add: rawField_def tag_defs)
  obtain enc where c: "NewStructEncoderWithConfig (sort_key fst) ?t DefaultConfig = Inr enc"
    by (simp add: NewStructEncoderWithConfig.simps tag_defs struct_defs Let_def)
  have u: "underlying ?t = TStruct ([Field ''Raw'' [] ''raw,raw'' (TSlice (TLeaf LUint8))] @ ?f # [])" by simp
  from raw_field_written_verbatim [OF r c u, of \<open>VStruct [VStr ''{"mapKey1":1}'', VStr []]\<close> "\<lparr>Bytes = []\<rparr>"]
  have \<open>StructEncoder_Marshal enc (VStruct [VStr ''{"mapKey1":1}'', VStr []]) \<lparr>Bytes = []\<rparr>
         = Inr \<lparr>Bytes = ''{"raw":{"mapKey1":1},"c":null}''\<rparr>\<close>
    by (simp add: closure_defs tag_defs struct_defs buffer_defs reader_defs conv_defs Let_def
        rawMember_def rawContent_def)
  with r c show ?thesis by blast
qed

text \<open>
  C10. A field whose tag name is \<open>-\<close> is not excluded: it is a member with the key
  \<open>-\<close>. Only a field whose tag yields an empty name contributes nothing: in the object
  written for a struct, a field contributes no member when its tag name is empty and one
  member under its tag name otherwise, and the name of the tag \<open>-\<close> is \<open>-\<close>.
\<close>

theorem dash_tag_is_emitted:
  assumes "NewStructEncoderWithConfig srt t cfg = Inr enc"
    and "underlying t = TStruct (pre @ f # post)"
  shows "StructEncoder_Marshal enc v w =
       writeObject (members srt cfg 0 pre @ members srt cfg (length pre) [f]
          @ members srt cfg (Suc (length pre)) post) v w
     \<and> members srt cfg (length pre) [f] =
         (if fst (parseTag (Tag f)) = [] then []
          else [(fst (parseTag (Tag f)),
                 fieldClosure f (length pre) (snd (parseTag (Tag f)))
                   (NewSliceEncoderWithConfig srt (Type f) cfg)
                   (NewStructEncoderWithConfig srt (pointee (Type f)) cfg)
                   (NewMapEncoderWithConfig srt (pointee (Type f)) cfg))])
     \<and> parseTag ''-'' = (''-'', [])"
  using NewStructEncoderWithConfig_Marshal_at [OF assms]
  by (simp add: parseTag_def)

theorem dash_tag_is_emitted_witness:
  \<open>\<exists>enc. NewStructEncoderWithConfig (sort_key fst)
       (TStruct [Field ''A'' [] ''a'' (TLeaf LInt), Field ''B'' [] ''-'' (TLeaf LInt),
                 Field ''C'' [] '',raw'' (TLeaf LString)]) DefaultConfig = Inr enc
     \<and> StructEncoder_Marshal enc (VStruct [VInt 1, VInt 5, VStr ''x'']) \<lparr>Bytes = []\<rparr>
         = Inr \<lparr>Bytes = ''{"a":1,"-":5}''\<rparr>\<close>
proof -
  let ?f = "Field ''B'' [] ''-'' (TLeaf LInt)"
  let ?t = "TStruct [Field ''A'' [] ''a'' (TLeaf LInt), ?f, Field ''C'' [] '',raw'' (TLeaf LString)]"
  obtain enc where c: "NewStructEncoderWithConfig (sort_key fst) ?t DefaultConfig = Inr enc"
    by (simp add: NewStructEncoderWithConfig.simps tag_defs struct_defs Let_def)
  have u: "underlying ?t = TStruct ([Field ''A'' [] ''a'' (TLeaf LInt)] @ ?f # [Field ''C'' [] '',raw'' (TLeaf LString)])"
    by simp
  from dash_tag_is_emitted [OF c u, of "VStruct [VInt 1, VInt 5, VStr ''x'']" "\<lparr>Bytes = []\<rparr>"]
  have \<open>StructEncoder_Marshal enc (VStruct [VInt 1, VInt 5, VStr ''x'']) \<lparr>Bytes = []\<rparr>
         = Inr \<lparr>Bytes = ''{"a":1,"-":5}''\<rparr>\<close>
    by (simp add: closure_defs tag_defs struct_defs buffer_defs reader_defs conv_defs Let_def)
  with c show ?thesis by blast
qed

end
